theory Spec2Isabelle
  imports Main "HOL-Library.Word" "HOL-Library.AList"
begin

unbundle bit_operations_syntax

section \<open>Attribute values of the tracing library\<close>

text \<open>
  The exporter reads attributes through the OpenTelemetry \<^verbatim>\<open>attribute\<close> package. A
  \<^verbatim>\<open>Value\<close> there is a struct of a type tag, a raw 64-bit word for the scalar kinds, a
  string, and a pointer to a copied slice for the slice kinds. A Go \<^verbatim>\<open>int64\<close> is an
  \<open>int\<close> between \<open>- 2 ^ 63\<close> and \<open>2 ^ 63 - 1\<close>; a Go \<^verbatim>\<open>float64\<close> is carried as its
  IEEE 754 bit pattern, which is also how the library stores it.
\<close>

type_synonym float64 = "64 word"

datatype Type = INVALID | BOOL | INT64 | FLOAT64 | STRING
  | BOOLSLICE | INT64SLICE | FLOAT64SLICE | STRINGSLICE

datatype slice_ptr = NilSlice
  | BoolSlicePtr "bool list"
  | Int64SlicePtr "int list"
  | Float64SlicePtr "float64 list"
  | StringSlicePtr "string list"

record Value =
  vtype :: Type
  numeric :: "64 word"
  stringly :: string
  slice :: slice_ptr

text \<open>The dynamic values an \<^verbatim>\<open>interface{}\<close> holds after \<^verbatim>\<open>AsInterface\<close>.\<close>

datatype iface = IBool bool | IInt64 int | IFloat64 float64 | IString string
  | IBoolSlice "bool list" | IInt64Slice "int list"
  | IFloat64Slice "float64 list" | IStringSlice "string list"
  | IUnknownValueType

definition is_int64 :: "int \<Rightarrow> bool" where
  "is_int64 i = (- (2 ^ 63) \<le> i \<and> i < 2 ^ 63)"

definition boolToRaw :: "bool \<Rightarrow> 64 word" where
  "boolToRaw b = (if b then 1 else 0)"

definition rawToBool :: "64 word \<Rightarrow> bool" where
  "rawToBool r = (r \<noteq> 0)"

definition int64ToRaw :: "int \<Rightarrow> 64 word" where
  "int64ToRaw i = word_of_int i"

definition rawToInt64 :: "64 word \<Rightarrow> int" where
  "rawToInt64 r = sint r"

definition float64ToRaw :: "float64 \<Rightarrow> 64 word" where
  "float64ToRaw f = f"

definition rawToFloat64 :: "64 word \<Rightarrow> float64" where
  "rawToFloat64 r = r"

definition BoolValue :: "bool \<Rightarrow> Value" where
  "BoolValue v = \<lparr>vtype = BOOL, numeric = boolToRaw v, stringly = [], slice = NilSlice\<rparr>"

definition Int64Value :: "int \<Rightarrow> Value" where
  "Int64Value v = \<lparr>vtype = INT64, numeric = int64ToRaw v, stringly = [], slice = NilSlice\<rparr>"

definition Float64Value :: "float64 \<Rightarrow> Value" where
  "Float64Value v =
     \<lparr>vtype = FLOAT64, numeric = float64ToRaw v, stringly = [], slice = NilSlice\<rparr>"

definition StringValue :: "string \<Rightarrow> Value" where
  "StringValue v = \<lparr>vtype = STRING, numeric = 0, stringly = v, slice = NilSlice\<rparr>"

definition BoolSliceValue :: "bool list \<Rightarrow> Value" where
  "BoolSliceValue v =
     \<lparr>vtype = BOOLSLICE, numeric = 0, stringly = [], slice = BoolSlicePtr v\<rparr>"

definition Int64SliceValue :: "int list \<Rightarrow> Value" where
  "Int64SliceValue v =
     \<lparr>vtype = INT64SLICE, numeric = 0, stringly = [], slice = Int64SlicePtr v\<rparr>"

definition Float64SliceValue :: "float64 list \<Rightarrow> Value" where
  "Float64SliceValue v =
     \<lparr>vtype = FLOAT64SLICE, numeric = 0, stringly = [], slice = Float64SlicePtr v\<rparr>"

definition StringSliceValue :: "string list \<Rightarrow> Value" where
  "StringSliceValue v =
     \<lparr>vtype = STRINGSLICE, numeric = 0, stringly = [], slice = StringSlicePtr v\<rparr>"

text \<open>
  The slice accessors assert the pointer's type and give the nil slice, here the empty
  list, when the assertion fails.
\<close>

definition AsBoolSlice :: "Value \<Rightarrow> bool list" where
  "AsBoolSlice v = (case slice v of BoolSlicePtr s \<Rightarrow> s | _ \<Rightarrow> [])"

definition AsInt64Slice :: "Value \<Rightarrow> int list" where
  "AsInt64Slice v = (case slice v of Int64SlicePtr s \<Rightarrow> s | _ \<Rightarrow> [])"

definition AsFloat64Slice :: "Value \<Rightarrow> float64 list" where
  "AsFloat64Slice v = (case slice v of Float64SlicePtr s \<Rightarrow> s | _ \<Rightarrow> [])"

definition AsStringSlice :: "Value \<Rightarrow> string list" where
  "AsStringSlice v = (case slice v of StringSlicePtr s \<Rightarrow> s | _ \<Rightarrow> [])"

definition AsInterface :: "Value \<Rightarrow> iface" where
  "AsInterface v =
     (case vtype v of
        BOOL \<Rightarrow> IBool (rawToBool (numeric v))
      | BOOLSLICE \<Rightarrow> IBoolSlice (AsBoolSlice v)
      | INT64 \<Rightarrow> IInt64 (rawToInt64 (numeric v))
      | INT64SLICE \<Rightarrow> IInt64Slice (AsInt64Slice v)
      | FLOAT64 \<Rightarrow> IFloat64 (rawToFloat64 (numeric v))
      | FLOAT64SLICE \<Rightarrow> IFloat64Slice (AsFloat64Slice v)
      | STRING \<Rightarrow> IString (stringly v)
      | STRINGSLICE \<Rightarrow> IStringSlice (AsStringSlice v)
      | INVALID \<Rightarrow> IUnknownValueType)"

text \<open>
  The attribute value the library builds for a Go value, by the constructor of its type,
  and the Go values of a supported type: every \<^verbatim>\<open>int64\<close> in range, and no
  \<^verbatim>\<open>unknownValueType\<close>.
\<close>

fun ValueOf :: "iface \<Rightarrow> Value" where
  "ValueOf (IBool b) = BoolValue b"
| "ValueOf (IInt64 i) = Int64Value i"
| "ValueOf (IFloat64 f) = Float64Value f"
| "ValueOf (IString s) = StringValue s"
| "ValueOf (IBoolSlice bs) = BoolSliceValue bs"
| "ValueOf (IInt64Slice is) = Int64SliceValue is"
| "ValueOf (IFloat64Slice fs) = Float64SliceValue fs"
| "ValueOf (IStringSlice ss) = StringSliceValue ss"
| "ValueOf IUnknownValueType = \<lparr>vtype = INVALID, numeric = 0, stringly = [], slice = NilSlice\<rparr>"

fun supported :: "iface \<Rightarrow> bool" where
  "supported (IInt64 i) = is_int64 i"
| "supported (IInt64Slice is) = list_all is_int64 is"
| "supported IUnknownValueType = False"
| "supported _ = True"

record KeyValue =
  Key :: string
  Value :: Value

section \<open>convert.go: attributes\<close>

text \<open>
  A Go map is an association list with distinct keys; assigning to a key replaces the
  value of a key already there and adds the pair otherwise. \<^verbatim>\<open>attributesToMap\<close>
  starts from the empty map and assigns once per attribute, in the slice's order.
\<close>

type_synonym attr_map = "(string \<times> iface) list"

definition attributesToMap :: "KeyValue list \<Rightarrow> attr_map" where
  "attributesToMap attributes =
     fold (\<lambda>v attrs. AList.update (Key v) (AsInterface (Value v)) attrs) attributes []"

section \<open>Span snapshots of the tracing SDK\<close>

text \<open>
  A trace identifier is 16 bytes and a span identifier 8; \<^verbatim>\<open>String\<close> writes each byte
  as two lower-case hexadecimal digits. The span kind and the status code are Go integer
  types with the named constants below; only the status code is converted to its name by
  the exporter. An instant is a number of nanoseconds since the Unix epoch, and
  \<^verbatim>\<open>UnixNano\<close> wraps it into an \<^verbatim>\<open>int64\<close>.
\<close>

type_synonym TraceID = "8 word list"
type_synonym SpanID = "8 word list"

definition hextable :: string where
  "hextable = ''0123456789abcdef''"

definition EncodeToString :: "8 word list \<Rightarrow> string" where
  "EncodeToString src =
     concat (map (\<lambda>v. [hextable ! unat (drop_bit 4 v), hextable ! unat (v AND 0x0f)]) src)"

record SpanContext =
  sc_TraceID :: TraceID
  sc_SpanID :: SpanID

datatype SpanKind = SpanKindUnspecified | SpanKindInternal | SpanKindServer
  | SpanKindClient | SpanKindProducer | SpanKindConsumer

fun SpanKind_int :: "SpanKind \<Rightarrow> int" where
  "SpanKind_int SpanKindUnspecified = 0"
| "SpanKind_int SpanKindInternal = 1"
| "SpanKind_int SpanKindServer = 2"
| "SpanKind_int SpanKindClient = 3"
| "SpanKind_int SpanKindProducer = 4"
| "SpanKind_int SpanKindConsumer = 5"

fun SpanKind_String :: "SpanKind \<Rightarrow> string" where
  "SpanKind_String SpanKindUnspecified = ''unspecified''"
| "SpanKind_String SpanKindInternal = ''internal''"
| "SpanKind_String SpanKindServer = ''server''"
| "SpanKind_String SpanKindClient = ''client''"
| "SpanKind_String SpanKindProducer = ''producer''"
| "SpanKind_String SpanKindConsumer = ''consumer''"

datatype Code = Unset | Error | Ok

fun Code_String :: "Code \<Rightarrow> string" where
  "Code_String Unset = ''Unset''"
| "Code_String Error = ''Error''"
| "Code_String Ok = ''Ok''"

record Status =
  Code :: Code
  Description :: string

type_synonym Time = int

definition UnixNano :: "Time \<Rightarrow> int" where
  "UnixNano t = sint (word_of_int t :: 64 word)"

record InstrumentationLibrary =
  lib_Name :: string
  lib_Version :: string

record sdkLink =
  sdkLink_SpanContext :: SpanContext
  sdkLink_Attributes :: "KeyValue list"

record sdkEvent =
  sdkEvent_Name :: string
  sdkEvent_Attributes :: "KeyValue list"
  sdkEvent_Time :: Time

text \<open>The methods of \<^verbatim>\<open>ReadOnlySpan\<close> that the converter calls, as the fields of a snapshot.\<close>

record ReadOnlySpan =
  span_Name :: string
  span_SpanContext :: SpanContext
  span_Parent :: SpanContext
  span_SpanKind :: SpanKind
  span_StartTime :: Time
  span_EndTime :: Time
  span_Attributes :: "KeyValue list"
  span_Links :: "sdkLink list"
  span_Events :: "sdkEvent list"
  span_Status :: Status
  span_InstrumentationLibrary :: InstrumentationLibrary
  span_Resource :: "KeyValue list"

section \<open>convert.go: span records\<close>

record Event =
  Event_Ts :: int
  Event_Name :: string
  Event_Attrs :: attr_map

record Link =
  Link_TraceID :: string
  Link_SpanID :: string
  Link_Attrs :: attr_map

record SpanData =
  TraceID :: string
  SpanID :: string
  ParentSpanID :: string
  Name :: string
  StartTime :: int
  EndTime :: int
  Attrs :: attr_map
  DroppedAttributeCount :: int
  Links :: "Link list"
  DroppedLinkCount :: int
  StatusCode :: string
  MessageEvents :: "Event list"
  DroppedMessageEventCount :: int
  SpanKind :: SpanKind
  StatusMessage :: string
  InstrumentationLibraryName :: string
  InstrumentationLibraryVersion :: string
  Resource :: attr_map

text \<open>The zero value \<^verbatim>\<open>SpanData{}\<close>.\<close>

definition SpanData_zero :: SpanData where
  "SpanData_zero =
     \<lparr>TraceID = [], SpanID = [], ParentSpanID = [], Name = [], StartTime = 0, EndTime = 0,
      Attrs = [], DroppedAttributeCount = 0, Links = [], DroppedLinkCount = 0,
      StatusCode = [], MessageEvents = [], DroppedMessageEventCount = 0,
      SpanKind = SpanKindUnspecified, StatusMessage = [], InstrumentationLibraryName = [],
      InstrumentationLibraryVersion = [], Resource = []\<rparr>"

definition linksToSlice :: "sdkLink list \<Rightarrow> Link list" where
  "linksToSlice links =
     fold (\<lambda>v l. l @ [\<lparr>Link_TraceID = EncodeToString (sc_TraceID (sdkLink_SpanContext v)),
                        Link_SpanID = EncodeToString (sc_SpanID (sdkLink_SpanContext v)),
                        Link_Attrs = attributesToMap (sdkLink_Attributes v)\<rparr>])
       links []"

definition eventsToSlice :: "sdkEvent list \<Rightarrow> Event list" where
  "eventsToSlice events =
     fold (\<lambda>v e. e @ [\<lparr>Event_Ts = UnixNano (sdkEvent_Time v),
                        Event_Name = sdkEvent_Name v,
                        Event_Attrs = attributesToMap (sdkEvent_Attributes v)\<rparr>])
       events []"

text \<open>The body of the loop of \<^verbatim>\<open>convertSpansToHttp\<close>: the record built for one span.\<close>

definition httpSpan :: "ReadOnlySpan \<Rightarrow> SpanData" where
  "httpSpan span =
     SpanData_zero
       \<lparr>TraceID := EncodeToString (sc_TraceID (span_SpanContext span)),
        SpanID := EncodeToString (sc_SpanID (span_SpanContext span)),
        ParentSpanID := EncodeToString (sc_SpanID (span_Parent span)),
        SpanKind := span_SpanKind span,
        Name := span_Name span,
        StatusMessage := Description (span_Status span),
        StatusCode := Code_String (Code (span_Status span)),
        StartTime := UnixNano (span_StartTime span),
        EndTime := UnixNano (span_EndTime span),
        InstrumentationLibraryName := lib_Name (span_InstrumentationLibrary span),
        InstrumentationLibraryVersion := lib_Version (span_InstrumentationLibrary span),
        Resource := attributesToMap (span_Resource span),
        MessageEvents := eventsToSlice (span_Events span),
        Attrs := attributesToMap (span_Attributes span),
        Links := linksToSlice (span_Links span)\<rparr>"

definition convertSpansToHttp :: "ReadOnlySpan list \<Rightarrow> SpanData list" where
  "convertSpansToHttp spans = fold (\<lambda>span httpSpans. httpSpans @ [httpSpan span]) spans []"

section \<open>The wire format\<close>

text \<open>
  \<^verbatim>\<open>json.Marshal\<close> is modelled up to the JSON value it writes: an object is the list of
  its members, in the order of the struct's fields. A field tagged \<^verbatim>\<open>omitempty\<close> is
  left out when its slice or map has length 0. An integer type without a marshalling
  method of its own, as the span kind, is written as a number. Marshalling fails, here
  with \<open>None\<close>, on a float that is infinite or not a number. Strings are taken to be
  valid UTF-8, which is written unchanged, and the members of a map's object are kept in
  the order of the association list, where the encoder would sort them by key.
\<close>

datatype json = JNull | JBool bool | JNumber int | JFloat float64 | JString string
  | JArray "json list" | JObject "(string \<times> json) list"

definition IsInfOrNaN :: "float64 \<Rightarrow> bool" where
  "IsInfOrNaN f = (drop_bit 52 f AND 0x7FF = 0x7FF)"

fun marshal_all :: "('a \<Rightarrow> json option) \<Rightarrow> 'a list \<Rightarrow> json list option" where
  "marshal_all f [] = Some []"
| "marshal_all f (x # xs) =
     (case f x of None \<Rightarrow> None
      | Some j \<Rightarrow> (case marshal_all f xs of None \<Rightarrow> None | Some js \<Rightarrow> Some (j # js)))"

definition marshal_float64 :: "float64 \<Rightarrow> json option" where
  "marshal_float64 f = (if IsInfOrNaN f then None else Some (JFloat f))"

fun marshal_iface :: "iface \<Rightarrow> json option" where
  "marshal_iface (IBool b) = Some (JBool b)"
| "marshal_iface (IInt64 i) = Some (JNumber i)"
| "marshal_iface (IFloat64 f) = marshal_float64 f"
| "marshal_iface (IString s) = Some (JString s)"
| "marshal_iface (IBoolSlice bs) = Some (JArray (map JBool bs))"
| "marshal_iface (IInt64Slice is) = Some (JArray (map JNumber is))"
| "marshal_iface (IFloat64Slice fs) = map_option JArray (marshal_all marshal_float64 fs)"
| "marshal_iface (IStringSlice ss) = Some (JArray (map JString ss))"
| "marshal_iface IUnknownValueType = Some (JObject [])"

fun marshal_members :: "attr_map \<Rightarrow> (string \<times> json) list option" where
  "marshal_members [] = Some []"
| "marshal_members ((k, v) # m) =
     (case marshal_iface v of None \<Rightarrow> None
      | Some j \<Rightarrow> (case marshal_members m of None \<Rightarrow> None | Some js \<Rightarrow> Some ((k, j) # js)))"

definition marshal_map :: "attr_map \<Rightarrow> json option" where
  "marshal_map m = map_option JObject (marshal_members m)"

definition marshal_Link :: "Link \<Rightarrow> json option" where
  "marshal_Link l =
     (case marshal_map (Link_Attrs l) of None \<Rightarrow> None
      | Some attrs \<Rightarrow>
          Some (JObject [(''traceId'', JString (Link_TraceID l)),
                         (''spanId'', JString (Link_SpanID l)),
                         (''attrs'', attrs)]))"

definition marshal_Event :: "Event \<Rightarrow> json option" where
  "marshal_Event e =
     (case marshal_map (Event_Attrs e) of None \<Rightarrow> None
      | Some attrs \<Rightarrow>
          Some (JObject [(''ts'', JNumber (Event_Ts e)),
                         (''name'', JString (Event_Name e)),
                         (''attrs'', attrs)]))"

definition omitempty :: "string \<Rightarrow> bool \<Rightarrow> json \<Rightarrow> (string \<times> json) list" where
  "omitempty name is_empty j = (if is_empty then [] else [(name, j)])"

definition SpanData_members :: "SpanData \<Rightarrow> json \<Rightarrow> json \<Rightarrow> json \<Rightarrow> json \<Rightarrow> (string \<times> json) list" where
  "SpanData_members d attrs links messageEvents resource =
     [(''traceId'', JString (TraceID d)),
      (''spanId'', JString (SpanID d)),
      (''parentSpanId'', JString (ParentSpanID d)),
      (''name'', JString (Name d)),
      (''startTime'', JNumber (StartTime d)),
      (''endTime'', JNumber (EndTime d)),
      (''attrs'', attrs),
      (''droppedAttributesCount'', JNumber (DroppedAttributeCount d))]
     @ omitempty ''links'' (length (Links d) = 0) links
     @ [(''droppedLinkCount'', JNumber (DroppedLinkCount d)),
        (''statusCode'', JString (StatusCode d))]
     @ omitempty ''messageEvents'' (length (MessageEvents d) = 0) messageEvents
     @ [(''droppedMessageEventCount'', JNumber (DroppedMessageEventCount d)),
        (''spanKind'', JNumber (SpanKind_int (SpanKind d))),
        (''statusMessage'', JString (StatusMessage d)),
        (''instrumentationLibraryName'', JString (InstrumentationLibraryName d)),
        (''instrumentationLibraryVersion'', JString (InstrumentationLibraryVersion d))]
     @ omitempty ''resource'' (length (Resource d) = 0) resource"

definition marshal_SpanData :: "SpanData \<Rightarrow> json option" where
  "marshal_SpanData d =
     (case marshal_map (Attrs d) of None \<Rightarrow> None
      | Some attrs \<Rightarrow>
     (case marshal_all marshal_Link (Links d) of None \<Rightarrow> None
      | Some links \<Rightarrow>
     (case marshal_all marshal_Event (MessageEvents d) of None \<Rightarrow> None
      | Some messageEvents \<Rightarrow>
     (case marshal_map (Resource d) of None \<Rightarrow> None
      | Some resource \<Rightarrow>
          Some (JObject (SpanData_members d attrs (JArray links) (JArray messageEvents)
                  resource))))))"

definition Marshal :: "SpanData list \<Rightarrow> json option" where
  "Marshal httpSpans = map_option JArray (marshal_all marshal_SpanData httpSpans)"

section \<open>exporter.go\<close>

text \<open>
  An error made by \<^verbatim>\<open>fmt.Errorf\<close> is identified by its format string; the other errors
  are the two a context can hold and whatever a library call reports. A context is known
  by the error it holds, which is \<open>None\<close> until it is cancelled or times out.
\<close>

datatype error = Errorf string | Canceled | DeadlineExceeded | LibraryError string

record Context =
  ctx_Err :: "error option"

definition Done :: "Context \<Rightarrow> bool" where
  "Done ctx = (ctx_Err ctx \<noteq> None)"

record URL =
  Scheme :: string
  Host :: string

record Request =
  req_ctx :: Context
  Method :: string
  req_URL :: URL
  Header :: "(string \<times> string) list"
  Body :: json

text \<open>
  Of a response the exporter uses the status code and the outcome of reading the body to
  its end. The client is the function its \<^verbatim>\<open>Do\<close> method computes; the logger is known
  by its prefix.
\<close>

record Response =
  resp_StatusCode :: int
  resp_Body :: "error option"

type_synonym Client = "Request \<Rightarrow> error + Response"

datatype Logger = Logger string

definition defaultURL :: string where
  "defaultURL = ''http://localhost:4000/''"

definition envEndpoint :: string where
  "envEndpoint = ''OTEL_EXPORTER_HTTP_ENDPOINT''"

definition envOr :: "(string \<rightharpoonup> string) \<Rightarrow> string \<Rightarrow> string \<Rightarrow> string" where
  "envOr environ key defaultValue =
     (case environ key of
        Some v \<Rightarrow> if v \<noteq> [] then v else defaultValue
      | None \<Rightarrow> defaultValue)"

record Exporter =
  url :: string
  serviceName :: string
  client :: Client
  logger :: "Logger option"
  stopped :: bool

record config =
  cfg_client :: "Client option"
  cfg_logger :: "Logger option"

type_synonym Option = "config \<Rightarrow> config"

definition WithLogger :: "Logger option \<Rightarrow> Option" where
  "WithLogger l = (\<lambda>cfg. cfg\<lparr>cfg_logger := l\<rparr>)"

definition WithClient :: "Client option \<Rightarrow> Option" where
  "WithClient c = (\<lambda>cfg. cfg\<lparr>cfg_client := c\<rparr>)"

text \<open>
  \<^verbatim>\<open>New\<close> takes what it reads from outside the package as parameters: the standard
  library's \<^verbatim>\<open>url.Parse\<close>, the process environment and \<^verbatim>\<open>http.DefaultClient\<close>.
  \<open>resolvedURL\<close> is the value of \<^verbatim>\<open>collectorURL\<close> after the first \<^verbatim>\<open>if\<close>.
\<close>

definition resolvedURL :: "(string \<rightharpoonup> string) \<Rightarrow> string \<Rightarrow> string" where
  "resolvedURL environ collectorURL =
     (if collectorURL = [] then envOr environ envEndpoint defaultURL else collectorURL)"

definition New ::
  "(string \<Rightarrow> error + URL) \<Rightarrow> (string \<rightharpoonup> string) \<Rightarrow> Client \<Rightarrow> string \<Rightarrow> Option list
     \<Rightarrow> error + Exporter" where
  "New Parse environ DefaultClient collectorURL opts =
     (let collectorURL = resolvedURL environ collectorURL in
      case Parse collectorURL of
        Inl err \<Rightarrow> Inl (Errorf ''invalid collector URL %q: %v'')
      | Inr u \<Rightarrow>
          if Scheme u = [] \<or> Host u = []
          then Inl (Errorf ''invalid collector URL %q: no scheme or host'')
          else
            let cfg = fold (\<lambda>opt cfg. opt cfg) opts \<lparr>cfg_client = None, cfg_logger = None\<rparr>;
                cfg = (if cfg_client cfg = None then cfg\<lparr>cfg_client := Some DefaultClient\<rparr>
                       else cfg)
            in Inr \<lparr>url = collectorURL, serviceName = [],
                     client = (case cfg_client cfg of Some c \<Rightarrow> c | None \<Rightarrow> DefaultClient),
                     logger = cfg_logger cfg, stopped = False\<rparr>)"

text \<open>
  What a call does besides returning is kept as the list of the calls it makes to its
  collaborators, in order: the logger, the marshaller, the client, and the response body.
  \<^verbatim>\<open>logf\<close> passes only the format on, and \<^verbatim>\<open>errf\<close> logs and makes the error from
  the format alone.
\<close>

datatype call = Printf Logger string | MarshalCall "SpanData list" | Do Request
  | ReadBody | CloseBody

definition logf :: "Exporter \<Rightarrow> string \<Rightarrow> call list \<Rightarrow> call list" where
  "logf e format calls =
     (case logger e of None \<Rightarrow> calls | Some l \<Rightarrow> calls @ [Printf l format])"

definition errf :: "Exporter \<Rightarrow> string \<Rightarrow> call list \<Rightarrow> error option \<times> call list" where
  "errf e format calls = (Some (Errorf format), logf e format calls)"

text \<open>
  \<^verbatim>\<open>http.NewRequestWithContext\<close> with the valid method \<^verbatim>\<open>POST\<close> and a context that is
  not nil fails only when the URL does not parse.
\<close>

definition NewRequestWithContext ::
  "(string \<Rightarrow> error + URL) \<Rightarrow> Context \<Rightarrow> string \<Rightarrow> string \<Rightarrow> json \<Rightarrow> error + Request" where
  "NewRequestWithContext Parse ctx method rawurl body =
     (case Parse rawurl of
        Inl err \<Rightarrow> Inl err
      | Inr u \<Rightarrow> Inr \<lparr>req_ctx = ctx, Method = method, req_URL = u, Header = [], Body = body\<rparr>)"

definition Header_Set :: "string \<Rightarrow> string \<Rightarrow> Request \<Rightarrow> Request" where
  "Header_Set key v req = req\<lparr>Header := AList.update key v (Header req)\<rparr>"

text \<open>
  \<^verbatim>\<open>ExportSpans\<close> returns its error, \<open>None\<close> for nil, and the calls it made, starting
  from none. A successful \<^verbatim>\<open>json.Marshal\<close> never returns nil, so the branch for
  \<^verbatim>\<open>body == nil\<close> is not taken. The deferred close of the body runs last on every
  path after the response arrived.
\<close>

definition ExportSpans :: "(string \<Rightarrow> error + URL) \<Rightarrow> Exporter \<Rightarrow> Context \<Rightarrow> ReadOnlySpan list
     \<Rightarrow> error option \<times> call list" where
  "ExportSpans Parse e ctx spans =
     (if stopped e then (None, logf e ''exporter stopped, not exporting span batch'' [])
      else if length spans = 0 then (None, logf e ''no spans to export'' [])
      else
        let httpSpans = convertSpansToHttp spans;
            calls = [MarshalCall httpSpans]
        in
        case Marshal httpSpans of
          None \<Rightarrow> errf e ''unable to serialize span data'' calls
        | Some body \<Rightarrow>
            let calls = logf e ''about to send a POST request to %s with body %s'' calls in
            (case NewRequestWithContext Parse ctx ''POST'' (url e) body of
               Inl err \<Rightarrow> errf e ''failed to create request to %s: %v'' calls
             | Inr req \<Rightarrow>
                 let req = Header_Set ''Content-Type'' ''application/json'' req;
                     calls = calls @ [Do req]
                 in
                 (case client e req of
                    Inl err \<Rightarrow> errf e ''request to %s failed: %v'' calls
                  | Inr resp \<Rightarrow>
                      let calls = calls @ [ReadBody];
                          (err, calls) =
                            (case resp_Body resp of
                               Some err \<Rightarrow> errf e ''failed to read response body: %v'' calls
                             | None \<Rightarrow>
                                 if resp_StatusCode resp < 200 \<and> resp_StatusCode resp > 300
                                 then errf e ''failed to send spans to server with status %d''
                                        calls
                                 else (None, logf e ''Spans sent with response code %d'' calls))
                      in (err, calls @ [CloseBody]))))"

text \<open>\<^verbatim>\<open>Shutdown\<close> returns its error and the exporter as it leaves it.\<close>

definition Shutdown :: "Exporter \<Rightarrow> Context \<Rightarrow> error option \<times> Exporter" where
  "Shutdown e ctx =
     (let e = e\<lparr>stopped := True\<rparr> in
      if Done ctx then (ctx_Err ctx, e) else (None, e))"

text \<open>The calls of a list that serialize, and those that go to the network.\<close>

fun is_MarshalCall :: "call \<Rightarrow> bool" where
  "is_MarshalCall (MarshalCall d) = True"
| "is_MarshalCall _ = False"

fun is_Do :: "call \<Rightarrow> bool" where
  "is_Do (Do req) = True"
| "is_Do _ = False"

section \<open>Reading the wire format\<close>

fun member :: "string \<Rightarrow> json \<Rightarrow> json option" where
  "member name (JObject ms) = map_of ms name"
| "member name _ = None"

section \<open>Sample inputs\<close>

text \<open>
  A span as in the specification's scenario, the results of \<^verbatim>\<open>url.Parse\<close> on the two
  strings the examples use (the examples apply it to no other string), a transport that
  answers every request with one status and a body that reads to its end, and an exporter
  as \<^verbatim>\<open>New\<close> makes it for the default URL with a logger.
\<close>

definition sample_span :: ReadOnlySpan where
  "sample_span =
     \<lparr>span_Name = ''GET /'',
      span_SpanContext =
        \<lparr>sc_TraceID = [0x4b, 0xf9, 0x2f, 0x35, 0x77, 0xb3, 0x4d, 0xa6,
                       0xa3, 0xce, 0x92, 0x9d, 0x0e, 0x0e, 0x47, 0x36],
         sc_SpanID = [0x00, 0xf0, 0x67, 0xaa, 0x0b, 0xa9, 0x02, 0xb7]\<rparr>,
      span_Parent = \<lparr>sc_TraceID = replicate 16 0, sc_SpanID = replicate 8 0\<rparr>,
      span_SpanKind = SpanKindServer,
      span_StartTime = 1000,
      span_EndTime = 2000,
      span_Attributes = [\<lparr>Key = ''http.method'', Value = StringValue ''GET''\<rparr>],
      span_Links = [],
      span_Events = [],
      span_Status = \<lparr>Code = Ok, Description = []\<rparr>,
      span_InstrumentationLibrary = \<lparr>lib_Name = ''example'', lib_Version = ''0.1''\<rparr>,
      span_Resource = []\<rparr>"

definition Parse_sample :: "string \<Rightarrow> error + URL" where
  "Parse_sample rawurl =
     (if rawurl = ''http://localhost:4000/''
      then Inr \<lparr>Scheme = ''http'', Host = ''localhost:4000''\<rparr>
      else if rawurl = ''not-a-url'' then Inr \<lparr>Scheme = [], Host = []\<rparr>
      else Inl (LibraryError ''parse''))"

definition respond :: "int \<Rightarrow> Client" where
  "respond status = (\<lambda>req. Inr \<lparr>resp_StatusCode = status, resp_Body = None\<rparr>)"

definition sample_exporter :: "int \<Rightarrow> Exporter" where
  "sample_exporter status =
     \<lparr>url = ''http://localhost:4000/'', serviceName = [], client = respond status,
      logger = Some (Logger ''otel''), stopped = False\<rparr>"

definition Background :: Context where
  "Background = \<lparr>ctx_Err = None\<rparr>"

section \<open>Properties of the attribute conversion\<close>

lemma rawToInt64_int64ToRaw: "is_int64 i \<Longrightarrow> rawToInt64 (int64ToRaw i) = i"
  unfolding rawToInt64_def int64ToRaw_def is_int64_def
  by (simp add: sint_sbintrunc' signed_take_bit_int_eq_self)

lemma rawToBool_boolToRaw: "rawToBool (boolToRaw b) = b"
  by (simp add: rawToBool_def boolToRaw_def)

lemma AsInterface_ValueOf: "supported g \<Longrightarrow> AsInterface (ValueOf g) = g"
proof (cases g)
  case (IInt64 i)
  assume "supported g"
  with IInt64 have "is_int64 i" by simp
  with IInt64 show ?thesis
    by (simp add: AsInterface_def Int64Value_def rawToInt64_int64ToRaw)
next
  case IUnknownValueType
  then show ?thesis by (simp add: AsInterface_def)
qed (simp_all add: AsInterface_def BoolValue_def Float64Value_def StringValue_def
      BoolSliceValue_def Int64SliceValue_def Float64SliceValue_def StringSliceValue_def
      AsBoolSlice_def AsInt64Slice_def AsFloat64Slice_def AsStringSlice_def
      rawToBool_boolToRaw rawToFloat64_def float64ToRaw_def)

text \<open>
  C7. An attribute value built from a Go value of a supported type (string, boolean,
  64-bit integer, 64-bit float, or a slice of one of those) converts to an
  \<^verbatim>\<open>interface{}\<close> holding that same Go value, and this is the value
  \<^verbatim>\<open>attributesToMap\<close> stores under the attribute's key; the slices keep their elements
  and their order. A float is compared by its bit pattern.
\<close>

theorem AsInterface_roundtrip:
  "supported g \<Longrightarrow>
   AsInterface (ValueOf g) = g \<and> attributesToMap [\<lparr>Key = k, Value = ValueOf g\<rparr>] = [(k, g)]"
  by (simp add: attributesToMap_def AsInterface_ValueOf)

theorem AsInterface_roundtrip_witness:
  "supported (IInt64Slice [- 5, 7]) \<and>
   AsInterface (ValueOf (IInt64Slice [- 5, 7])) = IInt64Slice [- 5, 7] \<and>
   attributesToMap [\<lparr>Key = ''n'', Value = ValueOf (IInt64Slice [- 5, 7])\<rparr>]
     = [(''n'', IInt64Slice [- 5, 7])]"
proof -
  have h: "supported (IInt64Slice [- 5, 7])" by (simp add: is_int64_def)
  show ?thesis using h AsInterface_roundtrip [OF h, of "''n''"] by simp
qed

lemma fold_update_keys:
  "fst ` set (fold (\<lambda>v attrs. AList.update (Key v) (AsInterface (Value v)) attrs) xs acc)
     = fst ` set acc \<union> Key ` set xs"
  by (induction xs arbitrary: acc) (auto simp: AList.dom_update)

lemma fold_update_distinct:
  "distinct (map fst acc) \<Longrightarrow>
   distinct (map fst (fold (\<lambda>v attrs. AList.update (Key v) (AsInterface (Value v)) attrs) xs acc))"
  by (induction xs arbitrary: acc) (auto simp: AList.distinct_update)

lemma fold_update_keeps:
  "k \<notin> Key ` set ys \<Longrightarrow>
   map_of (fold (\<lambda>v attrs. AList.update (Key v) (AsInterface (Value v)) attrs) ys acc) k
     = map_of acc k"
  by (induction ys arbitrary: acc) (auto simp: AList.update_conv')

text \<open>
  C10. The keys of the map \<^verbatim>\<open>attributesToMap\<close> returns are exactly the keys of the
  input, each once, and a key is mapped to the converted value of its last occurrence in
  the input: the value of a pair that no later pair shares its key with.
\<close>

theorem attributesToMap_last_wins:
  "fst ` set (attributesToMap attributes) = Key ` set attributes \<and>
   distinct (map fst (attributesToMap attributes)) \<and>
   (\<forall>xs v ys. attributes = xs @ v # ys \<and> Key v \<notin> Key ` set ys \<longrightarrow>
      map_of (attributesToMap attributes) (Key v) = Some (AsInterface (Value v)))"
  unfolding attributesToMap_def
  by (auto simp: fold_update_keys fold_update_distinct fold_update_keeps AList.update_conv')

theorem attributesToMap_last_wins_witness:
  "map_of (attributesToMap [\<lparr>Key = ''a'', Value = Int64Value 1\<rparr>,
                            \<lparr>Key = ''b'', Value = BoolValue True\<rparr>,
                            \<lparr>Key = ''a'', Value = StringValue ''x''\<rparr>]) ''a''
     = Some (IString ''x'') \<and>
   fst ` set (attributesToMap [\<lparr>Key = ''a'', Value = Int64Value 1\<rparr>,
                               \<lparr>Key = ''b'', Value = BoolValue True\<rparr>,
                               \<lparr>Key = ''a'', Value = StringValue ''x''\<rparr>]) = {''a'', ''b''}"
proof -
  let ?a1 = "\<lparr>Key = ''a'', Value = Int64Value 1\<rparr>"
  let ?b = "\<lparr>Key = ''b'', Value = BoolValue True\<rparr>"
  let ?a2 = "\<lparr>Key = ''a'', Value = StringValue ''x''\<rparr>"
  note t = attributesToMap_last_wins [of "[?a1, ?b, ?a2]"]
  have split: "[?a1, ?b, ?a2] = [?a1, ?b] @ ?a2 # []" by simp
  have last: "Key ?a2 \<notin> Key ` set []" by simp
  from t split last
  have "map_of (attributesToMap [?a1, ?b, ?a2]) (Key ?a2) = Some (AsInterface (Value ?a2))"
    by blast
  moreover have "AsInterface (Value ?a2) = IString ''x''"
    by (simp add: AsInterface_def StringValue_def)
  moreover from t have "fst ` set (attributesToMap [?a1, ?b, ?a2]) = Key ` set [?a1, ?b, ?a2]"
    by blast
  ultimately show ?thesis by auto
qed

section \<open>Properties of the span converter\<close>

lemma fold_snoc_map: "fold (\<lambda>x acc. acc @ [f x]) xs acc = acc @ map f xs"
  by (induction xs arbitrary: acc) simp_all

lemma convertSpansToHttp_map: "convertSpansToHttp spans = map httpSpan spans"
  by (simp add: convertSpansToHttp_def fold_snoc_map)

text \<open>
  C6. \<^verbatim>\<open>convertSpansToHttp\<close> returns as many records as it is given spans, the record at
  each index is the one built from the span at that index, and no spans give the empty
  sequence. It is a function of its argument alone and has no error result.
\<close>

theorem convertSpansToHttp_one_to_one:
  "length (convertSpansToHttp spans) = length spans \<and>
   (\<forall>i < length spans. convertSpansToHttp spans ! i = httpSpan (spans ! i)) \<and>
   convertSpansToHttp [] = []"
  by (simp add: convertSpansToHttp_map)

theorem convertSpansToHttp_one_to_one_witness:
  "length (convertSpansToHttp [sample_span, sample_span\<lparr>span_Name := ''POST /''\<rparr>]) = 2 \<and>
   Name (convertSpansToHttp [sample_span, sample_span\<lparr>span_Name := ''POST /''\<rparr>] ! 1)
     = ''POST /''"
proof -
  let ?spans = "[sample_span, sample_span\<lparr>span_Name := ''POST /''\<rparr>]"
  have i: "(1::nat) < length ?spans" by simp
  from convertSpansToHttp_one_to_one [of ?spans] i
  have "length (convertSpansToHttp ?spans) = length ?spans"
    and "convertSpansToHttp ?spans ! 1 = httpSpan (?spans ! 1)"
    by blast+
  then show ?thesis by (simp add: httpSpan_def)
qed

section \<open>Properties of the wire format\<close>

lemma marshal_SpanData_members:
  "marshal_SpanData d = Some j \<Longrightarrow>
   \<exists>attrs links messageEvents resource.
     j = JObject (SpanData_members d attrs links messageEvents resource)"
  by (auto simp: marshal_SpanData_def split: option.splits)

lemma member_statusCode:
  "member ''statusCode'' (JObject (SpanData_members d a l m r)) = Some (JString (StatusCode d))"
  by (simp add: SpanData_members_def omitempty_def)

lemma member_spanKind:
  "member ''spanKind'' (JObject (SpanData_members d a l m r))
     = Some (JNumber (SpanKind_int (SpanKind d)))"
  by (simp add: SpanData_members_def omitempty_def)

text \<open>
  C3. As stated (both \<^verbatim>\<open>statusCode\<close> and \<^verbatim>\<open>spanKind\<close> are written as the names of
  their values) the claim fails for \<^verbatim>\<open>spanKind\<close>: the field has the integer type of
  the span kind, and the scenario's span, of kind server, is written with the number 2.
  What holds: in the object written for a span, \<^verbatim>\<open>statusCode\<close> is the string name of
  the span's status code, and \<^verbatim>\<open>spanKind\<close> is the number of the span's kind.
\<close>

theorem statusCode_name_spanKind_number:
  "marshal_SpanData (httpSpan span) = Some j \<Longrightarrow>
   member ''statusCode'' j = Some (JString (Code_String (Code (span_Status span)))) \<and>
   member ''spanKind'' j = Some (JNumber (SpanKind_int (span_SpanKind span)))"
proof -
  assume "marshal_SpanData (httpSpan span) = Some j"
  then obtain a l m r where j: "j = JObject (SpanData_members (httpSpan span) a l m r)"
    using marshal_SpanData_members by blast
  have "StatusCode (httpSpan span) = Code_String (Code (span_Status span))"
    and "SpanKind (httpSpan span) = span_SpanKind span"
    by (simp_all add: httpSpan_def)
  with j show ?thesis by (simp only: member_statusCode member_spanKind)
qed

theorem statusCode_name_spanKind_number_witness:
  "marshal_SpanData (httpSpan sample_span) \<noteq> None \<and>
   map_option (member ''statusCode'') (marshal_SpanData (httpSpan sample_span))
     = Some (Some (JString ''Ok'')) \<and>
   map_option (member ''spanKind'') (marshal_SpanData (httpSpan sample_span))
     = Some (Some (JNumber 2))"
proof -
  have "marshal_SpanData (httpSpan sample_span) \<noteq> None" by code_simp
  then obtain j where j: "marshal_SpanData (httpSpan sample_span) = Some j" by blast
  have "Code (span_Status sample_span) = Ok" and "span_SpanKind sample_span = SpanKindServer"
    by (simp_all add: sample_span_def)
  with statusCode_name_spanKind_number [OF j] j show ?thesis by simp
qed

theorem spanKind_string_counterexample:
  "map_option (member ''spanKind'') (marshal_SpanData (httpSpan sample_span))
     = Some (Some (JNumber 2)) \<and>
   JNumber 2 \<noteq> JString (SpanKind_String (span_SpanKind sample_span))"
  by code_simp

lemma member_omitted:
  "(member ''links'' (JObject (SpanData_members d a l m r)) = None) = (Links d = [])"
  "(member ''messageEvents'' (JObject (SpanData_members d a l m r)) = None)
     = (MessageEvents d = [])"
  "(member ''resource'' (JObject (SpanData_members d a l m r)) = None) = (Resource d = [])"
  by (simp_all add: SpanData_members_def omitempty_def)

lemma member_always:
  "list_all (\<lambda>name. member name (JObject (SpanData_members d a l m r)) \<noteq> None)
     [''traceId'', ''spanId'', ''parentSpanId'', ''name'', ''startTime'', ''endTime'',
      ''attrs'', ''droppedAttributesCount'', ''droppedLinkCount'', ''statusCode'',
      ''droppedMessageEventCount'', ''spanKind'', ''statusMessage'',
      ''instrumentationLibraryName'', ''instrumentationLibraryVersion'']"
  by (simp add: SpanData_members_def omitempty_def)

text \<open>
  C4. As stated (only \<^verbatim>\<open>links\<close> and \<^verbatim>\<open>messageEvents\<close> can be missing, and
  \<^verbatim>\<open>resource\<close> is always there) the claim fails: \<^verbatim>\<open>resource\<close> is tagged
  \<^verbatim>\<open>omitempty\<close> too, and the scenario's span, whose resource has no attributes, is
  written without it. What holds: in every object written for a span record, each of
  \<^verbatim>\<open>links\<close>, \<^verbatim>\<open>messageEvents\<close> and \<^verbatim>\<open>resource\<close> is missing exactly when it is
  empty in the record, and the fifteen other fields are always there.
\<close>

theorem omitempty_members:
  "marshal_SpanData d = Some j \<Longrightarrow>
   (member ''links'' j = None) = (Links d = []) \<and>
   (member ''messageEvents'' j = None) = (MessageEvents d = []) \<and>
   (member ''resource'' j = None) = (Resource d = []) \<and>
   list_all (\<lambda>name. member name j \<noteq> None)
     [''traceId'', ''spanId'', ''parentSpanId'', ''name'', ''startTime'', ''endTime'',
      ''attrs'', ''droppedAttributesCount'', ''droppedLinkCount'', ''statusCode'',
      ''droppedMessageEventCount'', ''spanKind'', ''statusMessage'',
      ''instrumentationLibraryName'', ''instrumentationLibraryVersion'']"
proof -
  assume "marshal_SpanData d = Some j"
  then obtain a l m r where j: "j = JObject (SpanData_members d a l m r)"
    using marshal_SpanData_members by blast
  show ?thesis unfolding j by (intro conjI member_omitted member_always)
qed

theorem omitempty_members_witness:
  "marshal_SpanData (httpSpan sample_span) \<noteq> None \<and>
   map_option (member ''links'') (marshal_SpanData (httpSpan sample_span)) = Some None \<and>
   map_option (member ''attrs'') (marshal_SpanData (httpSpan sample_span)) \<noteq> Some None"
proof -
  have "marshal_SpanData (httpSpan sample_span) \<noteq> None" by code_simp
  then obtain j where j: "marshal_SpanData (httpSpan sample_span) = Some j" by blast
  have "Links (httpSpan sample_span) = []" by code_simp
  with omitempty_members [OF j] j show ?thesis by simp
qed

theorem resource_present_counterexample:
  "map_option (member ''resource'') (marshal_SpanData (httpSpan sample_span)) = Some None"
  by code_simp

section \<open>Properties of the exporter\<close>

lemma stopped_Shutdown: "stopped (snd (Shutdown e ctx))"
  by (simp add: Shutdown_def Let_def)

lemma logf_no_Marshal: "filter is_MarshalCall (logf e format []) = []"
  by (simp add: logf_def split: option.splits)

lemma logf_no_Do: "filter is_Do (logf e format []) = []"
  by (simp add: logf_def split: option.splits)

lemma ExportSpans_stopped:
  "stopped e \<Longrightarrow>
   ExportSpans Parse e ctx spans = (None, logf e ''exporter stopped, not exporting span batch'' [])"
  by (simp add: ExportSpans_def)

lemma ExportSpans_no_status_error:
  "fst (ExportSpans Parse e ctx spans)
     \<noteq> Some (Errorf ''failed to send spans to server with status %d'')"
  by (auto simp: ExportSpans_def Let_def errf_def split: option.splits sum.splits prod.splits)

text \<open>
  C1. The claim is that an export which reaches the classification of the response
  succeeds exactly for a status from 200 up to 299. The condition the code tests, a
  status below 200 and above 300 at once, holds for no status, so every such export
  succeeds: with a transport answering 500, the export of the scenario's span makes its
  one request and returns nil.
\<close>

theorem ExportSpans_status_500_returns_nil:
  "fst (ExportSpans Parse_sample (sample_exporter 500) Background [sample_span]) = None \<and>
   length (filter is_Do (snd (ExportSpans Parse_sample (sample_exporter 500) Background
     [sample_span]))) = 1"
  by code_simp

text \<open>
  C2. On the exporter \<^verbatim>\<open>Shutdown\<close> leaves, whatever \<^verbatim>\<open>Shutdown\<close> returned, every
  export of any batch returns nil and makes no call to the marshaller and none to the
  client.
\<close>

theorem ExportSpans_after_Shutdown:
  "fst (ExportSpans Parse (snd (Shutdown e ctx)) ctx' spans) = None \<and>
   filter is_MarshalCall (snd (ExportSpans Parse (snd (Shutdown e ctx)) ctx' spans)) = [] \<and>
   filter is_Do (snd (ExportSpans Parse (snd (Shutdown e ctx)) ctx' spans)) = []"
  by (simp add: ExportSpans_stopped stopped_Shutdown logf_no_Marshal logf_no_Do)

text \<open>
  C9. On an exporter that is not stopped, the export of the empty batch returns nil, and
  the only call it makes is the log line, if there is a logger: no request is made.
\<close>

theorem ExportSpans_empty_batch:
  "\<not> stopped e \<Longrightarrow>
   ExportSpans Parse e ctx [] = (None, logf e ''no spans to export'' []) \<and>
   filter is_Do (snd (ExportSpans Parse e ctx [])) = []"
  by (simp add: ExportSpans_def logf_no_Do)

theorem ExportSpans_empty_batch_witness:
  "\<not> stopped (sample_exporter 200) \<and>
   ExportSpans Parse_sample (sample_exporter 200) Background []
     = (None, [Printf (Logger ''otel'') ''no spans to export''])"
proof -
  have h: "\<not> stopped (sample_exporter 200)" by (simp add: sample_exporter_def)
  from ExportSpans_empty_batch [OF h, of Parse_sample Background] h
  show ?thesis by (simp add: logf_def sample_exporter_def)
qed

text \<open>
  C5. As stated (a signal that has already fired makes \<^verbatim>\<open>Shutdown\<close> return the
  cancellation error and leave the gate as it was) the claim fails: the flag is set
  before the signal is looked at, so an active exporter shut down under a cancelled
  context is stopped, and the cancellation error is returned. What holds:
  \<^verbatim>\<open>Shutdown\<close> always leaves the exporter stopped and otherwise unchanged, and it
  returns the context's error, which is nil exactly when the signal has not fired.
\<close>

theorem Shutdown_stops_then_reports:
  "stopped (snd (Shutdown e ctx)) \<and>
   snd (Shutdown e ctx) = e\<lparr>stopped := True\<rparr> \<and>
   fst (Shutdown e ctx) = ctx_Err ctx \<and>
   (fst (Shutdown e ctx) = None) = (\<not> Done ctx)"
  by (simp add: Shutdown_def Done_def Let_def)

theorem Shutdown_cancelled_counterexample:
  "Done \<lparr>ctx_Err = Some Canceled\<rparr> \<and>
   fst (Shutdown (sample_exporter 200) \<lparr>ctx_Err = Some Canceled\<rparr>) = Some Canceled \<and>
   \<not> stopped (sample_exporter 200) \<and>
   stopped (snd (Shutdown (sample_exporter 200) \<lparr>ctx_Err = Some Canceled\<rparr>))"
  by (simp add: Shutdown_def Done_def sample_exporter_def)

lemma New_unparsed:
  "Parse (resolvedURL environ collectorURL) = Inl err \<Longrightarrow>
   New Parse environ DefaultClient collectorURL opts = Inl (Errorf ''invalid collector URL %q: %v'')"
  by (simp add: New_def)

text \<open>
  C8. When the resolved collector URL parses, \<^verbatim>\<open>New\<close> returns an error exactly when
  the scheme or the host is empty, and an exporter for that URL exactly when neither is.
  The string \<^verbatim>\<open>not-a-url\<close> parses to a URL with neither and is refused.
\<close>

theorem New_validates:
  "Parse (resolvedURL environ collectorURL) = Inr u \<Longrightarrow>
   (\<exists>err. New Parse environ DefaultClient collectorURL opts = Inl err)
     = (Scheme u = [] \<or> Host u = []) \<and>
   (\<exists>e. New Parse environ DefaultClient collectorURL opts = Inr e
         \<and> url e = resolvedURL environ collectorURL)
     = (Scheme u \<noteq> [] \<and> Host u \<noteq> [])"
  by (auto simp: New_def Let_def)

theorem New_validates_witness:
  "Parse_sample (resolvedURL Map.empty ''not-a-url'') = Inr \<lparr>Scheme = [], Host = []\<rparr> \<and>
   (\<exists>err. New Parse_sample Map.empty (respond 200) ''not-a-url'' [] = Inl err) \<and>
   Parse_sample (resolvedURL Map.empty []) = Inr \<lparr>Scheme = ''http'', Host = ''localhost:4000''\<rparr> \<and>
   (\<exists>e. New Parse_sample Map.empty (respond 200) [] [] = Inr e)"
proof -
  have h1: "Parse_sample (resolvedURL Map.empty ''not-a-url'') = Inr \<lparr>Scheme = [], Host = []\<rparr>"
    by (simp add: Parse_sample_def resolvedURL_def)
  have h2: "Parse_sample (resolvedURL Map.empty [])
              = Inr \<lparr>Scheme = ''http'', Host = ''localhost:4000''\<rparr>"
    by (simp add: Parse_sample_def resolvedURL_def envOr_def defaultURL_def)
  from New_validates [where Parse = Parse_sample and environ = Map.empty
      and collectorURL = "''not-a-url''" and DefaultClient = "respond 200" and opts = "[]", OF h1]
  have "\<exists>err. New Parse_sample Map.empty (respond 200) ''not-a-url'' [] = Inl err" by simp
  moreover from New_validates [where Parse = Parse_sample and environ = Map.empty
      and collectorURL = "[]" and DefaultClient = "respond 200" and opts = "[]", OF h2]
  have "\<exists>e. New Parse_sample Map.empty (respond 200) [] [] = Inr e" by auto
  ultimately show ?thesis using h1 h2 by simp
qed

end
